theory Spec2Isabelle
  imports Complex_Main
begin

section \<open>HabitGraph: the statistics helpers of the chart component\<close>

text \<open>
  The chart component receives an array of data points
  \<^verbatim>\<open>{ date: string; completions: number; target?: number }\<close>, one per calendar day in
  chronological order (the most recent day last).  Completions are counts, so the
  \<^verbatim>\<open>number\<close> fields are integers here; the optional target is an option.
\<close>

record data_point =
  date :: string
  completions :: int
  target :: "int option"

text \<open>
  The result of a JavaScript division.  HOL's \<open>x / 0\<close> is \<open>0\<close>, JavaScript's is
  \<^verbatim>\<open>NaN\<close> or an infinity, so the quotient is a value of its own type and the
  non-finite results are constructors.  Rounding to a double is not modelled: a finite
  quotient is the exact real number.
\<close>

datatype js_number = Num real | NaN | PosInfinity | NegInfinity

definition js_div :: "real \<Rightarrow> real \<Rightarrow> js_number" where
  "js_div a b =
     (if b \<noteq> 0 then Num (a / b)
      else if a = 0 then NaN
      else if 0 < a then PosInfinity
      else NegInfinity)"

text \<open>
  \<^verbatim>\<open>Math.random()\<close> reads a hidden generator.  The generator is the sequence of
  the numbers it will return: a call takes the number at position \<open>0\<close> and leaves the
  sequence shifted by one.  \<open>constant_rng r\<close> returns \<open>r\<close> at every call and
  \<open>alternating_rng r s\<close> returns \<open>r\<close> and \<open>s\<close> in turn.
\<close>

type_synonym rng = "nat \<Rightarrow> real"

definition random :: "rng \<Rightarrow> real \<times> rng" where
  "random g = (g 0, (\<lambda>n. g (Suc n)))"

definition constant_rng :: "real \<Rightarrow> rng" where
  "constant_rng r n = r"

definition alternating_rng :: "real \<Rightarrow> real \<Rightarrow> rng" where
  "alternating_rng r s n = (if even n then r else s)"

definition no_label :: "int \<Rightarrow> string" where
  "no_label i = []"

text \<open>
  \<^verbatim>\<open>generateSampleData\<close>: the loop \<^verbatim>\<open>for (let i = 13; i >= 0; i--)\<close> pushes one
  point per day.  \<open>label i\<close> is the text \<^verbatim>\<open>toLocaleDateString\<close> gives for the day
  \<open>i\<close> days before today (the clock and the locale are the environment's), and
  \<open>sample_point\<close> is the object literal pushed: the label, then
  \<^verbatim>\<open>Math.floor(Math.random() * 8) + 2\<close> completions, then the target 7.
\<close>

definition sample_point :: "(int \<Rightarrow> string) \<Rightarrow> int \<Rightarrow> real \<Rightarrow> data_point" where
  "sample_point label i r = \<lparr>date = label i, completions = \<lfloor>r * 8\<rfloor> + 2, target = Some 7\<rparr>"

function sampleLoop ::
  "(int \<Rightarrow> string) \<Rightarrow> int \<Rightarrow> rng \<Rightarrow> data_point list \<Rightarrow> data_point list \<times> rng" where
  "sampleLoop label i g data =
     (if i \<ge> 0 then
        (case random g of (r, g') \<Rightarrow>
           sampleLoop label (i - 1) g' (data @ [sample_point label i r]))
      else (data, g))"
  by pat_completeness auto
termination
  by (relation "measure (\<lambda>(label, i, g, data). nat (i + 1))") auto

definition generateSampleData :: "(int \<Rightarrow> string) \<Rightarrow> rng \<Rightarrow> data_point list \<times> rng" where
  "generateSampleData label g = sampleLoop label 13 g []"

text \<open>\<^verbatim>\<open>data.reduce((sum, item) => sum + item.completions, 0)\<close>\<close>

definition calculateTotal :: "data_point list \<Rightarrow> int" where
  "calculateTotal data = foldl (\<lambda>sum item. sum + completions item) 0 data"

definition calculateAverage :: "data_point list \<Rightarrow> js_number" where
  "calculateAverage data =
     (if length data = 0 then Num 0
      else js_div (real_of_int (calculateTotal data)) (real (length data)))"

text \<open>
  \<^verbatim>\<open>calculateStreak\<close>: the loop runs the index \<open>i\<close> from \<open>data.length - 1\<close> down to
  \<open>0\<close> and leaves at the first point whose completions are not positive.  The index
  is in range at every read, since \<open>0 \<le> i \<le> length data - 1\<close>.
\<close>

function streakLoop :: "data_point list \<Rightarrow> int \<Rightarrow> int \<Rightarrow> int" where
  "streakLoop data i streak =
     (if i \<ge> 0 then
        (if completions (data ! nat i) > 0 then streakLoop data (i - 1) (streak + 1)
         else streak)
      else streak)"
  by pat_completeness auto
termination
  by (relation "measure (\<lambda>(data, i, streak). nat (i + 1))") auto

definition calculateStreak :: "data_point list \<Rightarrow> int" where
  "calculateStreak data = streakLoop data (int (length data) - 1) 0"

text \<open>
  The component itself: the chart shows \<open>data\<close> when it is not empty and generated
  sample data otherwise, and the summary below the chart is computed from what the
  chart shows.  The average is the number before \<^verbatim>\<open>toFixed(1)\<close> formats it.
\<close>

record graph_stats =
  shown_total :: int
  shown_average :: js_number
  shown_streak :: int

definition chartData :: "(int \<Rightarrow> string) \<Rightarrow> rng \<Rightarrow> data_point list \<Rightarrow> data_point list" where
  "chartData label g data = (if length data > 0 then data else fst (generateSampleData label g))"

definition HabitGraph :: "(int \<Rightarrow> string) \<Rightarrow> rng \<Rightarrow> data_point list \<Rightarrow> graph_stats" where
  "HabitGraph label g data =
     (let cd = chartData label g data
      in \<lparr>shown_total = calculateTotal cd,
          shown_average = calculateAverage cd,
          shown_streak = calculateStreak cd\<rparr>)"

text \<open>
  The test \<^verbatim>\<open>data[i].completions > 0\<close> of the streak loop, and the length of the run
  of completed days at the end of the array, which the proofs below relate to the loop.
\<close>

definition completed :: "data_point \<Rightarrow> bool" where
  "completed p \<longleftrightarrow> completions p > 0"

definition trailing_run :: "data_point list \<Rightarrow> nat" where
  "trailing_run data = length (takeWhile completed (rev data))"

text \<open>A data point with \<open>n\<close> completions, no label and no target, for the examples.\<close>

definition day :: "int \<Rightarrow> data_point" where
  "day n = \<lparr>date = [], completions = n, target = None\<rparr>"

text \<open>
  The contract of \<^verbatim>\<open>Math.random()\<close>: each of the first \<open>n\<close> numbers returned lies
  in \<open>[0, 1)\<close>.
\<close>

definition unit_interval_draws :: "rng \<Rightarrow> nat \<Rightarrow> bool" where
  "unit_interval_draws g n \<longleftrightarrow> (\<forall>k \<in> {0..<n}. 0 \<le> g k \<and> g k < 1)"

section \<open>StreakCalculator: the result pair\<close>

text \<open>
  Modelled from the spec: the longest-streak pass and the result pair
  \<open>{current, longest}\<close> of the streak computation.  The backend function that
  recomputes a habit's streaks is not among the sources; the only streak code there is
  \<^verbatim>\<open>calculateStreak\<close> above, which is the backward walk for the current streak.  The
  spec describes the longest streak as a single forward pass over all periods that
  tracks the maximum run of consecutive satisfied periods, where a later run replaces
  the maximum only when it is strictly longer (ties keep the oldest run).  A period is
  satisfied when its data point is \<open>completed\<close>.
\<close>

fun longestLoop :: "data_point list \<Rightarrow> int \<Rightarrow> int \<Rightarrow> int" where
  "longestLoop [] run best = best"
| "longestLoop (p # ps) run best =
     (if completions p > 0 then
        longestLoop ps (run + 1) (if run + 1 > best then run + 1 else best)
      else longestLoop ps 0 best)"

text \<open>
  Modelled from the spec: the longest streak of a history, which is the forward pass
  started with an empty run and a maximum of 0 (the backend code is not among the
  sources).
\<close>

definition longestStreak :: "data_point list \<Rightarrow> int" where
  "longestStreak data = longestLoop data 0 0"

text \<open>
  Modelled from the spec: the result \<open>{current, longest}\<close> of the contract
  \<open>computeStreak\<close>, whose backend code is not among the sources.
\<close>

record streaks =
  current :: int
  longest :: int

text \<open>
  Modelled from the spec: \<open>computeStreak\<close> returns both streaks of a history; the
  current streak is the backward walk of \<^verbatim>\<open>calculateStreak\<close>, the longest streak
  is the forward pass.  The backend function is not among the sources.
\<close>

definition computeStreak :: "data_point list \<Rightarrow> streaks" where
  "computeStreak data = \<lparr>current = calculateStreak data, longest = longestStreak data\<rparr>"

section \<open>Pet: the gamification component\<close>

text \<open>
  \<^verbatim>\<open>getPetState\<close> returns one of the string literals \<^verbatim>\<open>'happy'\<close>, \<^verbatim>\<open>'neutral'\<close>
  and \<^verbatim>\<open>'sad'\<close>; the three literals are the constructors of a datatype.  The
  properties \<^verbatim>\<open>level\<close>, \<^verbatim>\<open>happiness\<close> and \<^verbatim>\<open>experience\<close> are integers.
\<close>

datatype pet_state = Happy | Neutral | Sad

definition getPetState :: "int \<Rightarrow> pet_state" where
  "getPetState happiness =
     (if happiness \<ge> 80 then Happy
      else if happiness \<ge> 50 then Neutral
      else Sad)"

definition xpForNextLevel :: "int \<Rightarrow> int" where
  "xpForNextLevel level = level * 100"

definition xpProgress :: "int \<Rightarrow> int \<Rightarrow> js_number" where
  "xpProgress level experience =
     (case js_div (real_of_int experience) (real_of_int (xpForNextLevel level)) of
        Num q \<Rightarrow> Num (q * 100)
      | NaN \<Rightarrow> NaN
      | PosInfinity \<Rightarrow> PosInfinity
      | NegInfinity \<Rightarrow> NegInfinity)"

text \<open>
  What \<^verbatim>\<open>renderPet\<close> and the status paragraph draw from the state.  Text outside
  ASCII is written as the bytes the source file holds for it: the literal of the eyes
  and the last characters of each status message.
\<close>

definition baseColor :: "pet_state \<Rightarrow> string" where
  "baseColor state =
     (if state = Happy then ''#10B981'' else if state = Neutral then ''#F59E0B'' else ''#EF4444'')"

definition bullet :: string where
  "bullet = [CHR 0xC3, CHR 0xA2, CHR 0xE2, CHR 0x82, CHR 0xAC, CHR 0xC2, CHR 0xA2]"

definition eyeExpression :: "pet_state \<Rightarrow> string" where
  "eyeExpression state =
     (if state = Happy then ''^'' else if state = Neutral then bullet else bullet)"

definition mouthPath :: "pet_state \<Rightarrow> string" where
  "mouthPath state =
     (if state = Happy then ''M 40 55 Q 50 65 60 55''
      else if state = Neutral then ''M 40 60 L 60 60''
      else ''M 40 65 Q 50 55 60 65'')"

text \<open>
  The status paragraph holds three expressions \<^verbatim>\<open>state === s && message\<close>; an
  expression whose test is false renders nothing.
\<close>

definition statusMessage :: "pet_state \<Rightarrow> string" where
  "statusMessage state =
     (if state = Happy then
        ''Your pet is thriving! Keep up the great work! ''
          @ [CHR 0xC3, CHR 0xB0, CHR 0xC5, CHR 0xB8, CHR 0xC5, CHR 0xBD, CHR 0xE2, CHR 0x80, CHR 0xB0]
      else [])
     @ (if state = Neutral then
          ''Your pet is doing okay. Complete more habits to boost happiness! ''
            @ [CHR 0xC3, CHR 0xB0, CHR 0xC5, CHR 0xB8, CHR 0xCB, CHR 0x9C, CHR 0xC5, CHR 0xA0]
        else [])
     @ (if state = Sad then
          ''Your pet needs attention! Complete some habits to cheer them up. ''
            @ [CHR 0xC3, CHR 0xB0, CHR 0xC5, CHR 0xB8, CHR 0xC2, CHR 0xA5, CHR 0xC2, CHR 0xBA]
        else [])"

record pet_view =
  color :: string
  eyes :: string
  mouth :: string
  sparkles :: bool
  xp_needed :: int
  xp_progress :: js_number
  message :: string

definition Pet :: "int \<Rightarrow> int \<Rightarrow> int \<Rightarrow> pet_view" where
  "Pet level happiness experience =
     (let state = getPetState happiness
      in \<lparr>color = baseColor state,
          eyes = eyeExpression state,
          mouth = mouthPath state,
          sparkles = (state = Happy),
          xp_needed = xpForNextLevel level,
          xp_progress = xpProgress level experience,
          message = statusMessage state\<rparr>)"

section \<open>GamificationEngine\<close>

text \<open>
  Modelled from the spec: \<^verbatim>\<open>GamificationEngine.applyCompletion\<close>.  The backend code
  that updates the pet on a completion is not among the sources; the front end only
  declares the three pet fields and computes the threshold \<open>xpForNextLevel\<close>.  The spec
  gives the contract as a pure function \<open>applyCompletion(pet) \<rightarrow> pet'\<close>: add 10 to the
  experience; while the experience is at least \<open>level * 100\<close>, subtract \<open>level * 100\<close>
  and add 1 to the level; set the happiness to \<open>clamp(happiness + 2, 0, 100)\<close>.
\<close>

text \<open>
  Modelled from the spec: the pet state of a user, which the backend stores and the
  front end receives as \<^verbatim>\<open>pet_level\<close>, \<^verbatim>\<open>pet_experience\<close> and
  \<^verbatim>\<open>pet_happiness\<close>.
\<close>

record PetState =
  level :: int
  experience :: int
  happiness :: int

text \<open>
  Modelled from the spec: the level-up loop of \<open>applyCompletion\<close> (backend code, not
  among the sources), with the threshold \<open>level * 100\<close> that the front end computes
  as \<open>xpForNextLevel\<close>.  It ends from every pair of integers: a level below 1 rises to 1,
  and from level 1 on each round takes at least 100 from an experience that stays
  non-negative.
\<close>

function levelUp :: "int \<Rightarrow> int \<Rightarrow> int \<times> int" where
  "levelUp lvl xp =
     (if xp \<ge> xpForNextLevel lvl then levelUp (lvl + 1) (xp - xpForNextLevel lvl)
      else (lvl, xp))"
  by pat_completeness auto
termination
  by (relation "measures [\<lambda>(lvl, xp). nat (1 - lvl), \<lambda>(lvl, xp). nat xp]")
     (auto simp: xpForNextLevel_def)

text \<open>
  Modelled from the spec: \<open>clamp(x, lo, hi)\<close>, the value \<open>x\<close> brought into
  \<open>[lo, hi]\<close>; the backend helper is not among the sources.
\<close>

definition clamp :: "int \<Rightarrow> int \<Rightarrow> int \<Rightarrow> int" where
  "clamp x lo hi = (if x < lo then lo else if x > hi then hi else x)"

text \<open>
  Modelled from the spec: \<open>applyCompletion\<close> itself (backend code, not among the
  sources): 10 more experience, then the level-up loop, and the clamped happiness.
\<close>

definition applyCompletion :: "PetState \<Rightarrow> PetState" where
  "applyCompletion pet =
     (case levelUp (level pet) (experience pet + 10) of (lvl, xp) \<Rightarrow>
        \<lparr>level = lvl, experience = xp, happiness = clamp (happiness pet + 2) 0 100\<rparr>)"

section \<open>RiskPredictor\<close>

text \<open>
  Modelled from the spec: \<^verbatim>\<open>RiskPredictor.predict\<close>, its model artifact and its
  errors.  The backend predictor is not among the sources; the front end only declares
  the shape of the response (\<^verbatim>\<open>PredictionResponse\<close>) and the runbook names the error
  of a missing model file.

  The artifact is one file holding the fitted model with a version tag and the feature
  order.  The fitted model is its probability function (the probability of the positive
  class for a feature vector) and its gain importances, one per feature.  The file is
  absent, or cannot be read or parsed, or holds an artifact.  Probabilities are real
  numbers; the rounding of floating-point arithmetic is not modelled.  Loading is
  written as the first step of a call: the artifact is immutable, so keeping the
  loaded artifact for later calls does not change what a call returns.
\<close>

text \<open>
  Modelled from the spec: the model artifact and the states of its file (produced and
  read by backend code that is not among the sources).
\<close>

record model_artifact =
  schema_version :: nat
  feature_order :: "string list"
  predict_proba :: "real list \<Rightarrow> real"
  gain_importance :: "real list"

datatype artifact_file = Absent | Unreadable | Stored model_artifact

text \<open>
  Modelled from the spec: the failure kinds of the core, from the error taxonomy (the
  backend's error types are not among the sources).
\<close>

datatype core_error = InvalidInput | StateInconsistency | ModelNotReady

text \<open>
  Modelled from the spec: the prediction result, with the fields that the front end
  declares as \<^verbatim>\<open>PredictionResponse\<close>.
\<close>

record PredictionResult =
  risk_score :: real
  success_probability :: real
  feature_importance :: "(string \<times> real) list"
  recommendation :: string

text \<open>
  Modelled from the spec: loading the artifact (backend code, not among the sources).
  Loading accepts an artifact only when its version tag is the one the predictor
  supports; every other case is the "model not ready" failure.
\<close>

definition loadModel :: "nat \<Rightarrow> artifact_file \<Rightarrow> core_error + model_artifact" where
  "loadModel supported file =
     (case file of
        Absent \<Rightarrow> Inl ModelNotReady
      | Unreadable \<Rightarrow> Inl ModelNotReady
      | Stored m \<Rightarrow> if schema_version m = supported then Inr m else Inl ModelNotReady)"

text \<open>
  Modelled from the spec: the defensive clamp of the model's probability to
  \<open>[0, 1]\<close> (backend code, not among the sources).
\<close>

definition clamp01 :: "real \<Rightarrow> real" where
  "clamp01 x = (if x < 0 then 0 else if x > 1 then 1 else x)"

text \<open>
  Modelled from the spec: the choice of the recommendation (backend code, not among
  the sources).  The recommendation comes from an ordered rule table of thresholds and texts: the
  first rule whose threshold the risk score reaches gives the text, and the default
  text applies when none does.
\<close>

fun selectRule :: "(real \<times> string) list \<Rightarrow> string \<Rightarrow> real \<Rightarrow> string" where
  "selectRule [] dflt risk = dflt"
| "selectRule ((threshold, txt) # rules) dflt risk =
     (if risk \<ge> threshold then txt else selectRule rules dflt risk)"

text \<open>
  Modelled from the spec: the rule table of its example (high risk from 0.7, moderate
  risk from 0.4, on track otherwise); the backend's table is not among the sources.
\<close>

definition ruleTable :: "(real \<times> string) list" where
  "ruleTable = [(7 / 10, ''high risk''), (4 / 10, ''moderate risk'')]"

text \<open>
  Modelled from the spec: the recommendation for a risk score, by the rule table
  (backend code, not among the sources).
\<close>

definition recommend :: "real \<Rightarrow> string" where
  "recommend risk = selectRule ruleTable ''on track'' risk"

text \<open>
  Modelled from the spec: the feature importances of a result (backend code, not among
  the sources).  The five features of largest gain importance, with their names from the feature
  order, largest first.
\<close>

definition topFeatures :: "model_artifact \<Rightarrow> (string \<times> real) list" where
  "topFeatures m =
     take 5 (rev (sort_key snd (zip (feature_order m) (gain_importance m))))"

text \<open>
  Modelled from the spec: \<open>predict\<close> itself (backend code, not among the sources):
  load the artifact or fail; the risk score is the clamped probability, the success
  probability is 1 minus the risk score.
\<close>

definition predict :: "nat \<Rightarrow> artifact_file \<Rightarrow> real list \<Rightarrow> core_error + PredictionResult" where
  "predict supported file features =
     (case loadModel supported file of
        Inl e \<Rightarrow> Inl e
      | Inr m \<Rightarrow>
          (let risk = clamp01 (predict_proba m features)
           in Inr \<lparr>risk_score = risk,
                   success_probability = 1 - risk,
                   feature_importance = topFeatures m,
                   recommendation = recommend risk\<rparr>))"

text \<open>
  Two artifacts for the examples: both carry version tag 1 and two features; the first
  model answers \<open>3/10\<close> for every vector, the second answers the first feature of the
  vector plus \<open>1/2\<close> (outside \<open>[0, 1]\<close> for some vectors).
\<close>

definition steady_proba :: "real list \<Rightarrow> real" where
  "steady_proba features = 3 / 10"

definition shifted_proba :: "real list \<Rightarrow> real" where
  "shifted_proba features = (case features of [] \<Rightarrow> 0 | x # _ \<Rightarrow> x + 1 / 2)"

definition steady_artifact :: model_artifact where
  "steady_artifact =
     \<lparr>schema_version = 1, feature_order = [''difficulty_rating'', ''importance_rating''],
      predict_proba = steady_proba, gain_importance = [2, 5]\<rparr>"

definition shifted_artifact :: model_artifact where
  "shifted_artifact =
     \<lparr>schema_version = 1, feature_order = [''difficulty_rating'', ''importance_rating''],
      predict_proba = shifted_proba, gain_importance = [2, 5]\<rparr>"

section \<open>Properties of the chart statistics\<close>

declare sampleLoop.simps [simp del]
declare streakLoop.simps [simp del]
declare levelUp.simps [simp del]

text \<open>
  The streak loop started at index \<open>i\<close> adds to its counter the length of the run of
  completed days that ends at index \<open>i\<close>; started at the last index, it returns the
  length of the run at the end of the array.
\<close>

lemma streakLoop_take:
  "- 1 \<le> i \<Longrightarrow> i < int (length data) \<Longrightarrow>
   streakLoop data i s = s + int (trailing_run (take (nat (i + 1)) data))"
proof (induction data i s rule: streakLoop.induct)
  case (1 data i streak)
  show ?case
  proof (cases "i \<ge> 0")
    case False
    with "1.prems" have "i = - 1" by simp
    then show ?thesis by (simp add: streakLoop.simps trailing_run_def)
  next
    case True
    with "1.prems" have lt: "nat i < length data" by simp
    from True have n: "nat (i + 1) = Suc (nat i)" by simp
    have tk: "take (nat (i + 1)) data = take (nat i) data @ [data ! nat i]"
      using lt by (simp add: n take_Suc_conv_app_nth)
    show ?thesis
    proof (cases "completions (data ! nat i) > 0")
      case c: True
      have "streakLoop data i streak = streakLoop data (i - 1) (streak + 1)"
        using True c by (subst streakLoop.simps) simp
      also have "\<dots> = streak + 1 + int (trailing_run (take (nat (i - 1 + 1)) data))"
        using "1.IH"[OF True c] True "1.prems" by simp
      also have "\<dots> = streak + int (trailing_run (take (nat (i + 1)) data))"
        using c by (simp add: tk trailing_run_def completed_def)
      finally show ?thesis .
    next
      case c: False
      have "streakLoop data i streak = streak"
        using True c by (subst streakLoop.simps) simp
      then show ?thesis using c by (simp add: tk trailing_run_def completed_def)
    qed
  qed
qed

lemma calculateStreak_trailing: "calculateStreak data = int (trailing_run data)"
  unfolding calculateStreak_def by (subst streakLoop_take) simp_all

lemma trailing_run_append:
  "trailing_run (xs @ ys) =
     (if list_all completed ys then length ys + trailing_run xs else trailing_run ys)"
  by (auto simp: trailing_run_def takeWhile_append list_all_iff)

lemma trailing_run_Cons:
  "trailing_run (p # ps) =
     (if list_all completed ps then (if completed p then Suc (length ps) else length ps)
      else trailing_run ps)"
  using trailing_run_append [of "[p]" ps] by (simp add: trailing_run_def)

lemma calculateTotal_sum: "calculateTotal data = sum_list (map completions data)"
proof -
  have "foldl (\<lambda>sum item. sum + completions item) a data = a + sum_list (map completions data)" for a
    by (induction data arbitrary: a) simp_all
  then show ?thesis by (simp add: calculateTotal_def)
qed

lemma calculateStreak_run:
  assumes "list_all completed run" and "\<not> completed gap"
  shows "calculateStreak (older @ gap # run) = int (length run)"
proof -
  have "trailing_run (older @ gap # run) = trailing_run ((older @ [gap]) @ run)" by simp
  also have "\<dots> = length run + trailing_run (older @ [gap])"
    using assms by (simp only: trailing_run_append if_True)
  also have "trailing_run (older @ [gap]) = 0"
    using assms by (simp add: trailing_run_append trailing_run_def)
  finally show ?thesis by (simp add: calculateStreak_trailing)
qed

lemma calculateStreak_all:
  assumes "list_all completed data"
  shows "calculateStreak data = int (length data)"
proof -
  from assms have "takeWhile completed (rev data) = rev data"
    by (simp add: takeWhile_eq_all_conv list_all_iff)
  then have "length (takeWhile completed (rev data)) = length (rev data)"
    by (rule arg_cong)
  then show ?thesis by (simp only: calculateStreak_trailing trailing_run_def length_rev)
qed

text \<open>
  The streak is a function of the completions alone: the loop reads no other field of
  a data point, and no clock.
\<close>

lemma trailing_run_completions:
  "trailing_run data = length (takeWhile (\<lambda>c. 0 < c) (rev (map completions data)))"
proof -
  have "completed = (\<lambda>c. 0 < c) \<circ> completions"
    by (rule ext) (simp add: completed_def)
  then show ?thesis
    by (simp add: trailing_run_def rev_map takeWhile_map)
qed

lemma calculateStreak_reads_completions:
  "map completions data = map completions data' \<Longrightarrow> calculateStreak data = calculateStreak data'"
  by (simp add: calculateStreak_trailing trailing_run_completions)

lemma sampleLoop_points:
  "- 1 \<le> i \<Longrightarrow>
   fst (sampleLoop label i g data) =
     data @ map (\<lambda>k. sample_point label (i - int k) (g k)) [0..<nat (i + 1)]"
proof (induction label i g data rule: sampleLoop.induct)
  case (1 label i g data)
  show ?case
  proof (cases "i \<ge> 0")
    case False
    with "1.prems" have "i = - 1" by simp
    then show ?thesis by (simp add: sampleLoop.simps)
  next
    case True
    let ?g' = "\<lambda>n. g (Suc n)"
    have step: "sampleLoop label i g data =
        sampleLoop label (i - 1) ?g' (data @ [sample_point label i (g 0)])"
      using True by (subst sampleLoop.simps) (simp add: random_def)
    have ih: "fst (sampleLoop label (i - 1) ?g' (data @ [sample_point label i (g 0)])) =
        (data @ [sample_point label i (g 0)]) @
          map (\<lambda>k. sample_point label (i - 1 - int k) (?g' k)) [0..<nat (i - 1 + 1)]"
      using "1.IH"[OF True, of "g 0" ?g'] True
      by (simp add: random_def)
    have idx: "[0..<nat (i + 1)] = 0 # map Suc [0..<nat i]"
      using True by (simp add: nat_add_distrib upt_conv_Cons map_Suc_upt)
    show ?thesis
      unfolding step ih idx by (simp add: comp_def algebra_simps)
  qed
qed

lemma generateSampleData_points:
  "fst (generateSampleData label g) =
     map (\<lambda>k. sample_point label (13 - int k) (g k)) [0..<14]"
  unfolding generateSampleData_def by (subst sampleLoop_points) simp_all

lemma sample_point_range:
  "0 \<le> r \<Longrightarrow> r < 1 \<Longrightarrow>
   2 \<le> completions (sample_point label i r) \<and> completions (sample_point label i r) \<le> 9"
proof -
  assume a: "0 \<le> r" "r < 1"
  then have "0 \<le> \<lfloor>r * 8\<rfloor>" by simp
  moreover from a have "\<lfloor>r * 8\<rfloor> < 8" by (simp add: floor_less_iff)
  ultimately show ?thesis by (simp add: sample_point_def)
qed

lemma generateSampleData_range:
  assumes "unit_interval_draws g 14" and "p \<in> set (fst (generateSampleData label g))"
  shows "2 \<le> completions p \<and> completions p \<le> 9"
proof -
  from assms(2) obtain k where k: "k < 14" "p = sample_point label (13 - int k) (g k)"
    by (auto simp: generateSampleData_points)
  with assms(1) have "0 \<le> g k" "g k < 1" by (auto simp: unit_interval_draws_def)
  then show ?thesis unfolding k(2) by (rule sample_point_range)
qed

lemma generateSampleData_length: "length (fst (generateSampleData label g)) = 14"
  by (simp add: generateSampleData_points)

lemma sum_list_bounds:
  fixes f :: "'a \<Rightarrow> int"
  assumes "\<And>x. x \<in> set xs \<Longrightarrow> a \<le> f x \<and> f x \<le> b"
  shows "a * int (length xs) \<le> sum_list (map f xs) \<and> sum_list (map f xs) \<le> b * int (length xs)"
  using assms by (induction xs) (auto simp: algebra_simps, force+)


lemma generated_all_completed:
  assumes "unit_interval_draws g 14"
  shows "list_all completed (fst (generateSampleData label g))"
  using generateSampleData_range [OF assms] by (fastforce simp: list_all_iff completed_def)

lemma shown_streak_sample:
  assumes "unit_interval_draws g 14"
  shows "shown_streak (HabitGraph label g []) = 14"
  using calculateStreak_all [OF generated_all_completed [OF assms, of label]]
  by (simp add: HabitGraph_def Let_def chartData_def generateSampleData_length)

lemma shown_total_sample:
  assumes "unit_interval_draws g 14"
  shows "28 \<le> shown_total (HabitGraph label g []) \<and> shown_total (HabitGraph label g []) \<le> 126"
proof -
  let ?xs = "fst (generateSampleData label g)"
  have "2 * int (length ?xs) \<le> sum_list (map completions ?xs)
      \<and> sum_list (map completions ?xs) \<le> 9 * int (length ?xs)"
    by (rule sum_list_bounds) (rule generateSampleData_range [OF assms])
  then show ?thesis
    by (simp add: HabitGraph_def Let_def chartData_def calculateTotal_sum generateSampleData_length)
qed

lemma shown_average_sample:
  assumes "unit_interval_draws g 14"
  shows "\<exists>a. shown_average (HabitGraph label g []) = Num a \<and> 2 \<le> a \<and> a \<le> 9"
proof -
  let ?t = "shown_total (HabitGraph label g [])"
  have "fst (generateSampleData label g) \<noteq> []"
    using generateSampleData_length [of label g] by auto
  then have avg: "shown_average (HabitGraph label g []) = Num (real_of_int ?t / 14)"
    by (simp add: HabitGraph_def Let_def chartData_def calculateAverage_def js_div_def
        generateSampleData_length)
  from shown_total_sample [OF assms, of label]
  have "28 \<le> real_of_int ?t" "real_of_int ?t \<le> 126" by linarith+
  then have "2 \<le> real_of_int ?t / 14 \<and> real_of_int ?t / 14 \<le> 9" by simp
  with avg show ?thesis by blast
qed

lemma HabitGraph_nonempty:
  "data \<noteq> [] \<Longrightarrow>
   HabitGraph label g data =
     \<lparr>shown_total = calculateTotal data, shown_average = calculateAverage data,
      shown_streak = calculateStreak data\<rparr>"
  by (simp add: HabitGraph_def Let_def chartData_def)

lemma longestLoop_bounds:
  "run \<le> best \<Longrightarrow> 0 \<le> best \<Longrightarrow>
   best \<le> longestLoop data run best \<and>
   (if list_all completed data then run + int (length data) else int (trailing_run data))
     \<le> longestLoop data run best"
proof (induction data arbitrary: run best)
  case Nil
  then show ?case by simp
next
  case (Cons p ps)
  show ?case
  proof (cases "completed p")
    case True
    let ?best = "if run + 1 > best then run + 1 else best"
    have step: "longestLoop (p # ps) run best = longestLoop ps (run + 1) ?best"
      using True by (simp add: completed_def)
    have "run + 1 \<le> ?best" by simp
    moreover have "0 \<le> ?best" using Cons.prems by simp
    ultimately have ih:
      "?best \<le> longestLoop ps (run + 1) ?best"
      "(if list_all completed ps then run + 1 + int (length ps) else int (trailing_run ps))
         \<le> longestLoop ps (run + 1) ?best"
      using Cons.IH [of "run + 1" ?best] by blast+
    have b: "best \<le> ?best" by simp
    show ?thesis
    proof (cases "list_all completed ps")
      case all: True
      with ih(2) have "run + 1 + int (length ps) \<le> longestLoop ps (run + 1) ?best"
        by (simp only: if_True)
      with b ih(1) True all show ?thesis
        unfolding step by (simp add: trailing_run_Cons)
    next
      case nall: False
      with ih(2) have "int (trailing_run ps) \<le> longestLoop ps (run + 1) ?best"
        by (simp only: if_False)
      with b ih(1) True nall show ?thesis
        unfolding step by (simp add: trailing_run_Cons)
    qed
  next
    case False
    have step: "longestLoop (p # ps) run best = longestLoop ps 0 best"
      using False by (simp add: completed_def)
    from Cons.IH [of 0 best] Cons.prems have ih:
      "best \<le> longestLoop ps 0 best"
      "(if list_all completed ps then 0 + int (length ps) else int (trailing_run ps))
         \<le> longestLoop ps 0 best"
      by blast+
    from ih False show ?thesis
      unfolding step by (auto simp: trailing_run_Cons split: if_splits)
  qed
qed

lemma current_le_longest: "calculateStreak data \<le> longestStreak data"
  using longestLoop_bounds [of 0 0 data]
  by (simp add: longestStreak_def calculateStreak_trailing calculateStreak_all [unfolded calculateStreak_trailing]
      split: if_splits)


section \<open>Examples and small facts for the claims\<close>

lemma unit_interval_constant: "0 \<le> r \<Longrightarrow> r < 1 \<Longrightarrow> unit_interval_draws (constant_rng r) n"
  by (simp add: unit_interval_draws_def constant_rng_def)

lemma unit_interval_alternating:
  "0 \<le> r \<Longrightarrow> r < 1 \<Longrightarrow> 0 \<le> s \<Longrightarrow> s < 1 \<Longrightarrow> unit_interval_draws (alternating_rng r s) n"
  by (simp add: unit_interval_draws_def alternating_rng_def)

lemma completions_day [simp]: "completions (day n) = n"
  by (simp add: day_def)

lemma completed_day [simp]: "completed (day n) \<longleftrightarrow> 0 < n"
  by (simp add: completed_def)

text \<open>
  Without the guard the average of an empty array would be \<open>0 / 0\<close>, which is
  \<^verbatim>\<open>NaN\<close> in JavaScript.
\<close>

lemma unguarded_average_of_nothing: "js_div (real_of_int (calculateTotal [])) (real (length ([] :: data_point list))) = NaN"
  by (simp add: js_div_def calculateTotal_def)

text \<open>
  The total shown for an empty \<open>data\<close> array does depend on the generator: two
  generators give two totals.  (The streak shown does not, see C3.)
\<close>

lemma sample_total_depends_on_draws:
  "shown_total (HabitGraph no_label (constant_rng 0) []) = 28 \<and>
   shown_total (HabitGraph no_label (constant_rng (1 / 2)) []) = 84"
  by (simp add: HabitGraph_def Let_def chartData_def generateSampleData_points upt_rec
      calculateTotal_sum sample_point_def constant_rng_def)

section \<open>Facts about the pet, the level-up loop and the predictor\<close>

lemma getPetState_cases:
  "(getPetState h = Happy \<longleftrightarrow> h \<ge> 80) \<and>
   (getPetState h = Neutral \<longleftrightarrow> 50 \<le> h \<and> h < 80) \<and>
   (getPetState h = Sad \<longleftrightarrow> h < 50)"
  by (simp add: getPetState_def)

lemma baseColor_inj: "baseColor s = baseColor t \<longleftrightarrow> s = t"
  by (cases s; cases t) (simp_all add: baseColor_def)

lemma mouthPath_inj: "mouthPath s = mouthPath t \<longleftrightarrow> s = t"
  by (cases s; cases t) (simp_all add: mouthPath_def)

lemma statusMessage_inj: "statusMessage s = statusMessage t \<longleftrightarrow> s = t"
  by (cases s; cases t) (simp_all add: statusMessage_def)

text \<open>The inputs of the component's unit tests, and what the tests look for.\<close>

lemma Pet_test_messages:
  "take 21 (message (Pet 5 85 250)) = ''Your pet is thriving!'' \<and>
   take 23 (message (Pet 3 60 150)) = ''Your pet is doing okay.'' \<and>
   take 25 (message (Pet 2 30 50)) = ''Your pet needs attention!'' \<and>
   xp_needed (Pet 5 70 250) = 500"
  by (simp add: Pet_def Let_def getPetState_def statusMessage_def xpForNextLevel_def)

text \<open>
  On return from the level-up loop its test is false, and the loop body is the
  function's own equation.
\<close>

lemma levelUp_exit: "snd (levelUp lvl xp) < xpForNextLevel (fst (levelUp lvl xp))"
proof (induction lvl xp rule: levelUp.induct)
  case (1 lvl xp)
  show ?case
  proof (cases "xp \<ge> xpForNextLevel lvl")
    case True
    then have "levelUp lvl xp = levelUp (lvl + 1) (xp - xpForNextLevel lvl)"
      by (subst levelUp.simps) simp
    with "1.IH" [OF True] show ?thesis by simp
  next
    case False
    then have "levelUp lvl xp = (lvl, xp)" by (subst levelUp.simps) simp
    with False show ?thesis by simp
  qed
qed

lemma levelUp_below: "xp < xpForNextLevel lvl \<Longrightarrow> levelUp lvl xp = (lvl, xp)"
  by (subst levelUp.simps) simp

lemma levelUp_step:
  "xp \<ge> xpForNextLevel lvl \<Longrightarrow> levelUp lvl xp = levelUp (lvl + 1) (xp - xpForNextLevel lvl)"
  by (subst levelUp.simps) simp

lemma levelUp_105: "levelUp 1 105 = (2, 5)"
  by (simp add: levelUp_step levelUp_below xpForNextLevel_def)

text \<open>One completion can raise the level twice.\<close>

lemma applyCompletion_two_levels:
  "applyCompletion \<lparr>level = 1, experience = 290, happiness = 99\<rparr> =
     \<lparr>level = 3, experience = 0, happiness = 100\<rparr>"
  by (simp add: applyCompletion_def levelUp_step levelUp_below xpForNextLevel_def clamp_def)

lemma clamp_range: "lo \<le> hi \<Longrightarrow> lo \<le> clamp x lo hi \<and> clamp x lo hi \<le> hi"
  by (simp add: clamp_def)

lemma happiness_applyCompletion:
  "happiness (applyCompletion p) = clamp (happiness p + 2) 0 100"
  by (simp add: applyCompletion_def split: prod.splits)

text \<open>
  From a happiness inside the range, \<open>n\<close> completions add \<open>2 * n\<close>, up to 100.
\<close>

lemma happiness_after:
  "0 \<le> happiness p \<Longrightarrow> happiness p \<le> 100 \<Longrightarrow>
   happiness ((applyCompletion ^^ n) p) = min 100 (happiness p + 2 * int n)"
  by (induction n) (auto simp: happiness_applyCompletion clamp_def)

lemma clamp01_range: "0 \<le> clamp01 x \<and> clamp01 x \<le> 1"
  by (simp add: clamp01_def)

lemma clamp01_inside: "0 \<le> x \<Longrightarrow> x \<le> 1 \<Longrightarrow> clamp01 x = x"
  by (simp add: clamp01_def)

lemma loadModel_Inr:
  "loadModel supported file = Inr m \<longleftrightarrow> file = Stored m \<and> schema_version m = supported"
  by (cases "file") (auto simp: loadModel_def)

lemma loadModel_Inl:
  "loadModel supported file = Inl e \<Longrightarrow> e = ModelNotReady"
  by (cases "file") (auto simp: loadModel_def split: if_splits)

lemma predict_Inr:
  "predict supported file features = Inr r \<longleftrightarrow>
     (\<exists>m. file = Stored m \<and> schema_version m = supported \<and>
        r = \<lparr>risk_score = clamp01 (predict_proba m features),
             success_probability = 1 - clamp01 (predict_proba m features),
             feature_importance = topFeatures m,
             recommendation = recommend (clamp01 (predict_proba m features))\<rparr>)"
  by (cases "file") (auto simp: predict_def loadModel_def Let_def)

lemma predict_shifted:
  "predict 1 (Stored shifted_artifact) [1, 2] =
     Inr \<lparr>risk_score = 1, success_probability = 0,
          feature_importance = [(''importance_rating'', 5), (''difficulty_rating'', 2)],
          recommendation = ''high risk''\<rparr>"
  by (simp add: predict_def loadModel_def shifted_artifact_def shifted_proba_def clamp01_def
      topFeatures_def recommend_def ruleTable_def)

lemma predict_steady:
  "predict 1 (Stored steady_artifact) [1, 2] =
     Inr \<lparr>risk_score = 3 / 10, success_probability = 7 / 10,
          feature_importance = [(''importance_rating'', 5), (''difficulty_rating'', 2)],
          recommendation = ''on track''\<rparr>"
  by (simp add: predict_def loadModel_def steady_artifact_def steady_proba_def clamp01_def
      topFeatures_def recommend_def ruleTable_def)

section \<open>The claims about the chart statistics\<close>

text \<open>
  C1, with the reading by array position made explicit.  \<^verbatim>\<open>calculateStreak\<close> counts
  the data points with completions at the end of the array; it reads neither the dates
  nor a clock.  For an array that holds one point per calendar day, most recent last,
  and ends with the day \<open>D+2\<close>: completions on \<open>D\<close>, \<open>D+1\<close> and \<open>D+2\<close> give the
  streak 3, and when the point of \<open>D+1\<close> has no completions while \<open>D\<close> and \<open>D+2\<close>
  have some, the streak is 1.  In general the streak is the length of the run of
  completed points after the last point without completions, and the length of the
  array when every point is completed; it is 0 when the last point has no completions;
  and two arrays with the same completions have the same streak, whatever their dates.
\<close>

theorem calculateStreak_trailing_points:
  "(completed x \<and> completed y \<and> completed z \<longrightarrow> calculateStreak [x, y, z] = 3) \<and>
   (completed x \<and> \<not> completed y \<and> completed z \<longrightarrow> calculateStreak [x, y, z] = 1) \<and>
   (\<not> completed gap \<and> list_all completed run \<longrightarrow>
      calculateStreak (older @ gap # run) = int (length run)) \<and>
   (list_all completed run \<longrightarrow> calculateStreak run = int (length run)) \<and>
   (\<not> completed gap \<longrightarrow> calculateStreak (older @ [gap]) = 0) \<and>
   (map completions data = map completions data' \<longrightarrow>
      calculateStreak data = calculateStreak data')"
proof (intro conjI impI)
  assume "completed x \<and> completed y \<and> completed z"
  then have "list_all completed [x, y, z]" by simp
  from calculateStreak_all [OF this] show "calculateStreak [x, y, z] = 3" by simp
next
  assume a: "completed x \<and> \<not> completed y \<and> completed z"
  then have "list_all completed [z]" and "\<not> completed y" by simp_all
  from calculateStreak_run [OF this, of "[x]"] show "calculateStreak [x, y, z] = 1" by simp
next
  assume "\<not> completed gap \<and> list_all completed run"
  then show "calculateStreak (older @ gap # run) = int (length run)"
    by (simp add: calculateStreak_run)
next
  assume "list_all completed run"
  then show "calculateStreak run = int (length run)" by (rule calculateStreak_all)
next
  assume "\<not> completed gap"
  then show "calculateStreak (older @ [gap]) = 0"
    using calculateStreak_run [of "[]" gap older] by simp
next
  assume "map completions data = map completions data'"
  then show "calculateStreak data = calculateStreak data'"
    by (rule calculateStreak_reads_completions)
qed

theorem calculateStreak_trailing_points_witness:
  "calculateStreak [day 1, day 2, day 1] = 3 \<and>
   calculateStreak [day 1, day 0, day 4] = 1 \<and>
   calculateStreak ([day 1, day 1, day 1] @ day 0 # [day 2, day 3]) = 2 \<and>
   calculateStreak [day 1, day 4] = 2 \<and>
   calculateStreak ([day 1, day 1, day 1] @ [day 0]) = 0 \<and>
   map completions [\<lparr>date = ''Nov 1'', completions = 1, target = None\<rparr>,
                    \<lparr>date = ''Nov 3'', completions = 4, target = None\<rparr>] =
     map completions [day 1, day 4] \<and>
   calculateStreak [\<lparr>date = ''Nov 1'', completions = 1, target = None\<rparr>,
                    \<lparr>date = ''Nov 3'', completions = 4, target = None\<rparr>] =
     calculateStreak [day 1, day 4]"
proof -
  let ?xs = "[\<lparr>date = ''Nov 1'', completions = 1, target = None\<rparr>,
              \<lparr>date = ''Nov 3'', completions = 4, target = None\<rparr>]"
  have m: "map completions ?xs = map completions [day 1, day 4]" by simp
  from calculateStreak_trailing_points
    [where x = "day 1" and y = "day 2" and z = "day 1" and gap = "day 0"
       and run = "[day 2, day 3]" and older = "[day 1, day 1, day 1]"
       and data = ?xs and data' = "[day 1, day 4]"] m
  have a: "calculateStreak [day 1, day 2, day 1] = 3"
    "calculateStreak ([day 1, day 1, day 1] @ day 0 # [day 2, day 3]) = 2"
    "calculateStreak ([day 1, day 1, day 1] @ [day 0]) = 0"
    "calculateStreak ?xs = calculateStreak [day 1, day 4]"
    by simp_all
  from calculateStreak_trailing_points
    [where x = "day 1" and y = "day 0" and z = "day 4" and run = "[day 1, day 4]"]
  have b: "calculateStreak [day 1, day 0, day 4] = 1" "calculateStreak [day 1, day 4] = 2"
    by simp_all
  from a b m show ?thesis by blast
qed

text \<open>
  The reading by calendar days fails.  A history with completions on November 1 and
  November 3 and no data point for November 2 has the streak 2, not 1: the missing day
  does not break the streak.  And a history with completions on three consecutive days
  followed by a point without completions (a day still open) has the streak 0.
\<close>

theorem calculateStreak_ignores_calendar:
  "calculateStreak [\<lparr>date = ''Nov 1'', completions = 1, target = None\<rparr>,
                    \<lparr>date = ''Nov 3'', completions = 1, target = None\<rparr>] = 2 \<and>
   calculateStreak [\<lparr>date = ''Nov 1'', completions = 1, target = None\<rparr>,
                    \<lparr>date = ''Nov 3'', completions = 1, target = None\<rparr>] \<noteq> 1 \<and>
   calculateStreak [\<lparr>date = ''Nov 1'', completions = 1, target = None\<rparr>,
                    \<lparr>date = ''Nov 2'', completions = 1, target = None\<rparr>,
                    \<lparr>date = ''Nov 3'', completions = 1, target = None\<rparr>,
                    \<lparr>date = ''Nov 4'', completions = 0, target = None\<rparr>] = 0"
  by (simp add: calculateStreak_trailing trailing_run_def completed_def)

text \<open>
  C10.  \<^verbatim>\<open>calculateAverage\<close> returns 0 for the empty array and the quotient of
  \<^verbatim>\<open>calculateTotal(data)\<close> by \<^verbatim>\<open>data.length\<close> for every array that is not empty;
  because of the guard the division never has a zero divisor, so the result is always
  a finite number.
\<close>

theorem calculateAverage_guarded:
  "calculateAverage [] = Num 0 \<and>
   (data \<noteq> [] \<longrightarrow>
      calculateAverage data = js_div (real_of_int (calculateTotal data)) (real (length data)) \<and>
      calculateAverage data = Num (real_of_int (calculateTotal data) / real (length data))) \<and>
   (\<exists>a. calculateAverage data = Num a)"
  by (simp add: calculateAverage_def js_div_def)

theorem calculateAverage_guarded_witness:
  "[day 3, day 4] \<noteq> [] \<and> calculateAverage [day 3, day 4] = Num (7 / 2)"
proof -
  have "calculateTotal [day 3, day 4] = 7" by (simp add: calculateTotal_sum)
  moreover from calculateAverage_guarded [of "[day 3, day 4]"]
  have "calculateAverage [day 3, day 4] =
      Num (real_of_int (calculateTotal [day 3, day 4]) / real (length [day 3, day 4]))"
    by blast
  ultimately show ?thesis by simp
qed

text \<open>
  C2, with the displayed values corrected.  On an empty history the streak computation returns current = 0 and
  longest = 0, and the total and the average of an empty array are 0: nothing fails.
  The component, however, replaces an empty \<open>data\<close> array with 14 generated sample
  points before it computes what it shows, so the streak it shows is 14 and the
  average it shows lies between 2 and 9.
\<close>

theorem empty_history_defaults:
  "computeStreak [] = \<lparr>current = 0, longest = 0\<rparr> \<and>
   calculateStreak [] = 0 \<and> calculateTotal [] = 0 \<and> calculateAverage [] = Num 0 \<and>
   (unit_interval_draws g 14 \<longrightarrow>
      shown_streak (HabitGraph label g []) = 14 \<and>
      (\<exists>a. shown_average (HabitGraph label g []) = Num a \<and> 2 \<le> a \<and> a \<le> 9))"
proof -
  have "calculateStreak [] = 0" by (simp add: calculateStreak_trailing trailing_run_def)
  then show ?thesis
    by (simp add: computeStreak_def longestStreak_def calculateTotal_def calculateAverage_def
        shown_streak_sample shown_average_sample)
qed

theorem empty_history_defaults_witness:
  "unit_interval_draws (constant_rng (1 / 2)) 14 \<and>
   shown_streak (HabitGraph no_label (constant_rng (1 / 2)) []) = 14 \<and>
   computeStreak [] = \<lparr>current = 0, longest = 0\<rparr>"
  using empty_history_defaults [of "constant_rng (1 / 2)" no_label]
  by (simp add: unit_interval_constant)

text \<open>
  The original wording, that the streak and the average shown for an empty \<open>data\<close>
  array are 0, fails: the statistics shown are those of the generated sample data: with a generator that always
  returns 0 the streak shown is 14 and the average shown is 2.
\<close>

theorem empty_data_shows_sample_statistics:
  "shown_streak (HabitGraph no_label (constant_rng 0) []) = 14 \<and>
   shown_average (HabitGraph no_label (constant_rng 0) []) = Num 2 \<and>
   shown_streak (HabitGraph no_label (constant_rng 0) []) \<noteq> 0 \<and>
   shown_average (HabitGraph no_label (constant_rng 0) []) \<noteq> Num 0"
proof -
  have "shown_average (HabitGraph no_label (constant_rng 0) []) = Num 2"
    by (simp add: HabitGraph_def Let_def chartData_def generateSampleData_points upt_rec
        calculateAverage_def js_div_def calculateTotal_sum sample_point_def constant_rng_def)
  moreover have "shown_streak (HabitGraph no_label (constant_rng 0) []) = 14"
    by (rule shown_streak_sample) (simp add: unit_interval_constant)
  ultimately show ?thesis by simp
qed

text \<open>
  C3.  The streak computed for a history does not depend on anything but the history:
  the streak the component shows is the same under any two generators of
  \<^verbatim>\<open>Math.random()\<close> and any two clocks.  For a history that is not empty it is
  \<^verbatim>\<open>calculateStreak\<close> of the history, whatever the generators; for the empty
  history it is 14 under generators that return numbers in \<open>[0, 1)\<close>, since every
  generated sample point then has at least 2 completions.
\<close>

theorem streak_independent_of_draws:
  assumes "data = [] \<Longrightarrow> unit_interval_draws g 14"
    and "data = [] \<Longrightarrow> unit_interval_draws g' 14"
  shows "shown_streak (HabitGraph label g data) = shown_streak (HabitGraph label' g' data) \<and>
         shown_streak (HabitGraph label g data) = (if data = [] then 14 else calculateStreak data)"
proof (cases "data = []")
  case True
  with assms show ?thesis by (simp add: shown_streak_sample)
next
  case False
  then show ?thesis by (simp add: HabitGraph_nonempty)
qed

theorem streak_independent_of_draws_witness:
  "unit_interval_draws (constant_rng 0) 14 \<and>
   unit_interval_draws (alternating_rng (1 / 2) (99 / 100)) 14 \<and>
   shown_streak (HabitGraph no_label (constant_rng 0) []) =
     shown_streak (HabitGraph no_label (alternating_rng (1 / 2) (99 / 100)) []) \<and>
   shown_streak (HabitGraph no_label (constant_rng 0) [day 1, day 0, day 2]) = 1"
proof -
  have a: "unit_interval_draws (constant_rng 0) 14" by (simp add: unit_interval_constant)
  have b: "unit_interval_draws (alternating_rng (1 / 2) (99 / 100)) 14"
    by (simp add: unit_interval_alternating)
  have "calculateStreak [day 1, day 0, day 2] = 1"
    using calculateStreak_run [of "[day 2]" "day 0" "[day 1]"] by simp
  with a b
    streak_independent_of_draws [where data = "[]" and g = "constant_rng 0"
      and g' = "alternating_rng (1 / 2) (99 / 100)" and label = no_label and label' = no_label]
    streak_independent_of_draws [where data = "[day 1, day 0, day 2]" and g = "constant_rng 0"
      and g' = "alternating_rng (1 / 2) (99 / 100)" and label = no_label and label' = no_label]
  show ?thesis by simp
qed

text \<open>
  C4.  After every streak computation the current streak is at most the longest
  streak, and both are non-negative integers.
\<close>

theorem current_streak_le_longest_streak:
  "0 \<le> current (computeStreak data) \<and>
   current (computeStreak data) \<le> longest (computeStreak data) \<and>
   0 \<le> longest (computeStreak data)"
proof -
  have "0 \<le> calculateStreak data" by (simp add: calculateStreak_trailing)
  moreover have "calculateStreak data \<le> longestStreak data" by (rule current_le_longest)
  ultimately show ?thesis by (simp add: computeStreak_def)
qed

theorem current_streak_le_longest_streak_witness:
  "computeStreak [day 1, day 1, day 1, day 0, day 2] = \<lparr>current = 1, longest = 3\<rparr> \<and>
   current (computeStreak [day 1, day 1, day 1, day 0, day 2])
     \<le> longest (computeStreak [day 1, day 1, day 1, day 0, day 2])"
  using current_streak_le_longest_streak [of "[day 1, day 1, day 1, day 0, day 2]"]
    calculateStreak_run [of "[day 2]" "day 0" "[day 1, day 1, day 1]"]
  by (simp add: computeStreak_def longestStreak_def)

section \<open>The claims about the pet and the gamification engine\<close>

text \<open>
  C9.  The state of the pet is a total three-way partition on the happiness: happy
  exactly from 80 on, neutral exactly from 50 up to but excluding 80, sad exactly below
  50.  The colour, the shape of the mouth and the status message are functions of the
  state, so two pets in the same state show the same colour, mouth and message.  Each
  state has its own colour, mouth and message, the ones written in the component: the
  three values of each are the literals below, by the same thresholds, and two pets that
  show the same colour (or mouth, or message) are in the same state.
\<close>

theorem getPetState_partition:
  "(getPetState h = Happy \<longleftrightarrow> h \<ge> 80) \<and>
   (getPetState h = Neutral \<longleftrightarrow> 50 \<le> h \<and> h < 80) \<and>
   (getPetState h = Sad \<longleftrightarrow> h < 50) \<and>
   color (Pet l h e) = baseColor (getPetState h) \<and>
   mouth (Pet l h e) = mouthPath (getPetState h) \<and>
   message (Pet l h e) = statusMessage (getPetState h) \<and>
   (getPetState h = getPetState h' \<longrightarrow>
      color (Pet l h e) = color (Pet l' h' e') \<and>
      mouth (Pet l h e) = mouth (Pet l' h' e') \<and>
      message (Pet l h e) = message (Pet l' h' e')) \<and>
   color (Pet l h e) =
     (if h \<ge> 80 then ''#10B981'' else if h \<ge> 50 then ''#F59E0B'' else ''#EF4444'') \<and>
   mouth (Pet l h e) =
     (if h \<ge> 80 then ''M 40 55 Q 50 65 60 55''
      else if h \<ge> 50 then ''M 40 60 L 60 60''
      else ''M 40 65 Q 50 55 60 65'') \<and>
   message (Pet l h e) =
     (if h \<ge> 80 then
        ''Your pet is thriving! Keep up the great work! ''
          @ [CHR 0xC3, CHR 0xB0, CHR 0xC5, CHR 0xB8, CHR 0xC5, CHR 0xBD, CHR 0xE2, CHR 0x80, CHR 0xB0]
      else if h \<ge> 50 then
        ''Your pet is doing okay. Complete more habits to boost happiness! ''
          @ [CHR 0xC3, CHR 0xB0, CHR 0xC5, CHR 0xB8, CHR 0xCB, CHR 0x9C, CHR 0xC5, CHR 0xA0]
      else
        ''Your pet needs attention! Complete some habits to cheer them up. ''
          @ [CHR 0xC3, CHR 0xB0, CHR 0xC5, CHR 0xB8, CHR 0xC2, CHR 0xA5, CHR 0xC2, CHR 0xBA]) \<and>
   (color (Pet l h e) = color (Pet l' h' e') \<longrightarrow> getPetState h = getPetState h') \<and>
   (mouth (Pet l h e) = mouth (Pet l' h' e') \<longrightarrow> getPetState h = getPetState h') \<and>
   (message (Pet l h e) = message (Pet l' h' e') \<longrightarrow> getPetState h = getPetState h')"
proof -
  have c: "color (Pet l h e) = baseColor (getPetState h)"
    "mouth (Pet l h e) = mouthPath (getPetState h)"
    "message (Pet l h e) = statusMessage (getPetState h)" for l h e
    by (simp_all add: Pet_def Let_def)
  have v: "baseColor (getPetState h) =
      (if h \<ge> 80 then ''#10B981'' else if h \<ge> 50 then ''#F59E0B'' else ''#EF4444'')"
    "mouthPath (getPetState h) =
     (if h \<ge> 80 then ''M 40 55 Q 50 65 60 55''
      else if h \<ge> 50 then ''M 40 60 L 60 60''
      else ''M 40 65 Q 50 55 60 65'')"
    "statusMessage (getPetState h) =
     (if h \<ge> 80 then
        ''Your pet is thriving! Keep up the great work! ''
          @ [CHR 0xC3, CHR 0xB0, CHR 0xC5, CHR 0xB8, CHR 0xC5, CHR 0xBD, CHR 0xE2, CHR 0x80, CHR 0xB0]
      else if h \<ge> 50 then
        ''Your pet is doing okay. Complete more habits to boost happiness! ''
          @ [CHR 0xC3, CHR 0xB0, CHR 0xC5, CHR 0xB8, CHR 0xCB, CHR 0x9C, CHR 0xC5, CHR 0xA0]
      else
        ''Your pet needs attention! Complete some habits to cheer them up. ''
          @ [CHR 0xC3, CHR 0xB0, CHR 0xC5, CHR 0xB8, CHR 0xC2, CHR 0xA5, CHR 0xC2, CHR 0xBA])"
    by (simp_all add: getPetState_def baseColor_def mouthPath_def statusMessage_def)
  show ?thesis
    unfolding c v [symmetric]
    using getPetState_cases [of h]
    by (simp add: baseColor_inj mouthPath_inj statusMessage_inj)
qed

theorem getPetState_partition_witness:
  "getPetState 85 = getPetState 92 \<and> getPetState 85 = Happy \<and>
   color (Pet 5 85 250) = color (Pet 1 92 0) \<and>
   mouth (Pet 5 85 250) = mouth (Pet 1 92 0) \<and>
   message (Pet 5 85 250) = message (Pet 1 92 0) \<and>
   color (Pet 5 85 250) = ''#10B981'' \<and>
   mouth (Pet 3 60 150) = ''M 40 60 L 60 60'' \<and>
   take 25 (message (Pet 2 30 50)) = ''Your pet needs attention!''"
proof -
  have a: "getPetState 85 = getPetState 92" and b: "getPetState 85 = Happy"
    by (simp_all add: getPetState_def)
  from getPetState_partition [of 85 5 250 92 1 0] a
  have "color (Pet 5 85 250) = color (Pet 1 92 0) \<and>
        mouth (Pet 5 85 250) = mouth (Pet 1 92 0) \<and>
        message (Pet 5 85 250) = message (Pet 1 92 0)"
    by blast
  moreover have "color (Pet 5 85 250) = ''#10B981''"
  proof -
    from getPetState_partition [of 85 5 250 92 1 0]
    have "color (Pet 5 85 250) =
        (if (85::int) \<ge> 80 then ''#10B981'' else if (85::int) \<ge> 50 then ''#F59E0B'' else ''#EF4444'')"
      by (elim conjE) assumption
    then show ?thesis by simp
  qed
  moreover have "mouth (Pet 3 60 150) = ''M 40 60 L 60 60''"
  proof -
    from getPetState_partition [of 60 3 150 92 1 0]
    have "mouth (Pet 3 60 150) =
        (if (60::int) \<ge> 80 then ''M 40 55 Q 50 65 60 55''
         else if (60::int) \<ge> 50 then ''M 40 60 L 60 60''
         else ''M 40 65 Q 50 55 60 65'')"
      by (elim conjE) assumption
    then show ?thesis by simp
  qed
  moreover have "take 25 (message (Pet 2 30 50)) = ''Your pet needs attention!''"
  proof -
    from getPetState_partition [of 30 2 50 92 1 0]
    have "message (Pet 2 30 50) =
     (if (30::int) \<ge> 80 then
        ''Your pet is thriving! Keep up the great work! ''
          @ [CHR 0xC3, CHR 0xB0, CHR 0xC5, CHR 0xB8, CHR 0xC5, CHR 0xBD, CHR 0xE2, CHR 0x80, CHR 0xB0]
      else if (30::int) \<ge> 50 then
        ''Your pet is doing okay. Complete more habits to boost happiness! ''
          @ [CHR 0xC3, CHR 0xB0, CHR 0xC5, CHR 0xB8, CHR 0xCB, CHR 0x9C, CHR 0xC5, CHR 0xA0]
      else
        ''Your pet needs attention! Complete some habits to cheer them up. ''
          @ [CHR 0xC3, CHR 0xB0, CHR 0xC5, CHR 0xB8, CHR 0xC2, CHR 0xA5, CHR 0xC2, CHR 0xBA])"
      by (elim conjE) assumption
    then show ?thesis by simp
  qed
  ultimately show ?thesis using a b by blast
qed

text \<open>
  C5.  \<open>applyCompletion\<close> adds 10 to the experience and then, while the experience is
  at least \<open>level * 100\<close>, subtracts \<open>level * 100\<close> and adds 1 to the level; on return
  the experience is below the threshold of the level reached.  From level 1 and
  experience 95, one completion gives experience 5 and level 2.
\<close>

theorem applyCompletion_experience_and_level:
  "applyCompletion \<lparr>level = 1, experience = 95, happiness = h\<rparr> =
     \<lparr>level = 2, experience = 5, happiness = clamp (h + 2) 0 100\<rparr> \<and>
   (level (applyCompletion p), experience (applyCompletion p)) =
     levelUp (level p) (experience p + 10) \<and>
   levelUp lvl xp =
     (if xp \<ge> lvl * 100 then levelUp (lvl + 1) (xp - lvl * 100) else (lvl, xp)) \<and>
   experience (applyCompletion p) < level (applyCompletion p) * 100"
proof -
  have a: "applyCompletion \<lparr>level = 1, experience = 95, happiness = h\<rparr> =
     \<lparr>level = 2, experience = 5, happiness = clamp (h + 2) 0 100\<rparr>"
    by (simp add: applyCompletion_def levelUp_105)
  have b: "(level (applyCompletion p), experience (applyCompletion p)) =
     levelUp (level p) (experience p + 10)"
    by (simp add: applyCompletion_def split: prod.splits)
  have c: "levelUp lvl xp =
     (if xp \<ge> lvl * 100 then levelUp (lvl + 1) (xp - lvl * 100) else (lvl, xp))"
    by (subst levelUp.simps) (simp add: xpForNextLevel_def)
  have d: "experience (applyCompletion p) < level (applyCompletion p) * 100"
    using levelUp_exit [of "level p" "experience p + 10"] b [symmetric]
    by (simp add: xpForNextLevel_def)
  from a b c d show ?thesis by blast
qed

theorem applyCompletion_experience_and_level_witness:
  "applyCompletion \<lparr>level = 1, experience = 95, happiness = 50\<rparr> =
     \<lparr>level = 2, experience = 5, happiness = 52\<rparr>"
  using applyCompletion_experience_and_level [of 50]
  by (simp add: clamp_def)

text \<open>
  C6.  \<open>applyCompletion\<close> sets the happiness to \<open>clamp(happiness + 2, 0, 100)\<close>, and
  after any positive number of calls, from any starting state, the happiness lies in
  \<open>[0, 100]\<close>.
\<close>

theorem applyCompletion_happiness_range:
  "happiness (applyCompletion p) = clamp (happiness p + 2) 0 100 \<and>
   (0 < n \<longrightarrow>
      0 \<le> happiness ((applyCompletion ^^ n) p) \<and> happiness ((applyCompletion ^^ n) p) \<le> 100)"
proof (intro conjI impI)
  show "happiness (applyCompletion p) = clamp (happiness p + 2) 0 100"
    by (rule happiness_applyCompletion)
next
  assume "0 < n"
  then obtain m where n: "n = Suc m" by (cases n) simp_all
  have "happiness ((applyCompletion ^^ n) p) = clamp (happiness ((applyCompletion ^^ m) p) + 2) 0 100"
    by (simp add: n happiness_applyCompletion)
  then show "0 \<le> happiness ((applyCompletion ^^ n) p)" "happiness ((applyCompletion ^^ n) p) \<le> 100"
    using clamp_range [of 0 100 "happiness ((applyCompletion ^^ m) p) + 2"] by simp_all
qed

theorem applyCompletion_happiness_range_witness:
  "(0::nat) < 3 \<and>
   0 \<le> happiness ((applyCompletion ^^ 3) \<lparr>level = 1, experience = 0, happiness = 250\<rparr>) \<and>
   happiness ((applyCompletion ^^ 3) \<lparr>level = 1, experience = 0, happiness = 250\<rparr>) \<le> 100 \<and>
   happiness (applyCompletion \<lparr>level = 1, experience = 0, happiness = - 7\<rparr>) = 0"
  using applyCompletion_happiness_range [of "\<lparr>level = 1, experience = 0, happiness = 250\<rparr>" 3]
    applyCompletion_happiness_range [of "\<lparr>level = 1, experience = 0, happiness = - 7\<rparr>" 1]
  by (simp add: clamp_def)

section \<open>The claims about the risk predictor\<close>

text \<open>
  C7.  Every result that \<open>predict\<close> returns has a risk score in \<open>[0, 1]\<close>, which is the
  clamped probability of the stored model, and a success probability equal to 1 minus
  the risk score.
\<close>

theorem predict_risk_score_range:
  "predict supported file features = Inr r \<Longrightarrow>
   0 \<le> risk_score r \<and> risk_score r \<le> 1 \<and> success_probability r = 1 - risk_score r \<and>
   (\<exists>m. file = Stored m \<and> risk_score r = clamp01 (predict_proba m features))"
  using clamp01_range by (auto simp: predict_Inr)

theorem predict_risk_score_range_witness:
  "predict 1 (Stored shifted_artifact) [1, 2] =
     Inr \<lparr>risk_score = 1, success_probability = 0,
          feature_importance = [(''importance_rating'', 5), (''difficulty_rating'', 2)],
          recommendation = ''high risk''\<rparr> \<and>
   predict_proba shifted_artifact [1, 2] = 3 / 2 \<and>
   risk_score \<lparr>risk_score = 1, success_probability = 0,
          feature_importance = [(''importance_rating'', 5), (''difficulty_rating'', 2)],
          recommendation = ''high risk''\<rparr> \<le> 1"
  using predict_risk_score_range [OF predict_shifted] predict_shifted
  by (simp add: shifted_artifact_def shifted_proba_def)

text \<open>
  C8.  When the artifact is absent, unreadable or of another version, loading fails and
  \<open>predict\<close> fails with the "model not ready" error, which differs from the other
  failure kinds, and returns no result.  A result is returned only for a stored
  artifact of the supported version, and its risk score is the clamped output of that
  artifact's model; the only failure of \<open>predict\<close> is "model not ready".
\<close>

theorem predict_model_not_ready:
  "(file = Absent \<or> file = Unreadable \<or> (\<exists>m. file = Stored m \<and> schema_version m \<noteq> supported) \<longrightarrow>
      loadModel supported file = Inl ModelNotReady \<and>
      predict supported file features = Inl ModelNotReady \<and>
      (\<forall>r. predict supported file features \<noteq> Inr r)) \<and>
   (predict supported file features = Inr r \<longrightarrow>
      (\<exists>m. file = Stored m \<and> schema_version m = supported \<and>
           risk_score r = clamp01 (predict_proba m features))) \<and>
   (predict supported file features = Inl e \<longrightarrow> e = ModelNotReady) \<and>
   ModelNotReady \<noteq> InvalidInput \<and> ModelNotReady \<noteq> StateInconsistency"
proof (intro conjI impI)
  assume "file = Absent \<or> file = Unreadable \<or> (\<exists>m. file = Stored m \<and> schema_version m \<noteq> supported)"
  then show l: "loadModel supported file = Inl ModelNotReady"
    by (auto simp: loadModel_def)
  then show p: "predict supported file features = Inl ModelNotReady"
    by (simp add: predict_def)
  then show "\<forall>r. predict supported file features \<noteq> Inr r" by simp
next
  assume "predict supported file features = Inr r"
  then show "\<exists>m. file = Stored m \<and> schema_version m = supported \<and>
           risk_score r = clamp01 (predict_proba m features)"
    by (auto simp: predict_Inr)
next
  assume "predict supported file features = Inl e"
  then show "e = ModelNotReady"
    by (auto simp: predict_def Let_def split: sum.splits dest: loadModel_Inl)
qed simp_all

theorem predict_model_not_ready_witness:
  "predict 1 Absent [1, 2] = Inl ModelNotReady \<and>
   predict 1 Unreadable [1, 2] = Inl ModelNotReady \<and>
   schema_version steady_artifact \<noteq> 2 \<and>
   predict 2 (Stored steady_artifact) [1, 2] = Inl ModelNotReady"
proof -
  have v: "schema_version steady_artifact \<noteq> 2" by (simp add: steady_artifact_def)
  then have "\<exists>m. Stored steady_artifact = Stored m \<and> schema_version m \<noteq> 2" by blast
  with predict_model_not_ready [of "Stored steady_artifact" 2 "[1, 2]"]
  have "predict 2 (Stored steady_artifact) [1, 2] = Inl ModelNotReady" by blast
  moreover from predict_model_not_ready [of Absent 1 "[1, 2]"]
  have "predict 1 Absent [1, 2] = Inl ModelNotReady" by blast
  moreover from predict_model_not_ready [of Unreadable 1 "[1, 2]"]
  have "predict 1 Unreadable [1, 2] = Inl ModelNotReady" by blast
  ultimately show ?thesis using v by blast
qed

end
